theory Spec2Isabelle
  imports Complex_Main
begin

section \<open>Floating-point values\<close>

text \<open>
  The algorithm works on numpy/pandas float64 values. The claims depend on the special
  values (NaN, which pandas treats as "missing", and the two infinities), not on rounding,
  so a value is either one of the three special values or a finite number, and finite
  arithmetic is exact. The sign of a zero is not tracked: \<open>Fin 0\<close> stands for +0.0.
\<close>

datatype fval = Fin rat | PInf | NInf | NaN

fun is_nan :: "fval \<Rightarrow> bool" where
  "is_nan NaN = True"
| "is_nan _ = False"

fun is_finite :: "fval \<Rightarrow> bool" where
  "is_finite (Fin _) = True"
| "is_finite _ = False"

text \<open>Unary minus of a float.\<close>

fun fneg :: "fval \<Rightarrow> fval" where
  "fneg (Fin a) = Fin (- a)"
| "fneg PInf = NInf"
| "fneg NInf = PInf"
| "fneg NaN = NaN"

text \<open>An infinity of the sign of \<open>a\<close>; NaN when \<open>a\<close> is zero.\<close>

definition signed_inf :: "rat \<Rightarrow> fval" where
  "signed_inf a = (if 0 < a then PInf else if a < 0 then NInf else NaN)"

text \<open>Float multiplication: NaN propagates, and infinity times zero is NaN.\<close>

fun fmul :: "fval \<Rightarrow> fval \<Rightarrow> fval" where
  "fmul NaN _ = NaN"
| "fmul _ NaN = NaN"
| "fmul (Fin a) (Fin b) = Fin (a * b)"
| "fmul (Fin a) PInf = signed_inf a"
| "fmul (Fin a) NInf = signed_inf (- a)"
| "fmul PInf (Fin b) = signed_inf b"
| "fmul NInf (Fin b) = signed_inf (- b)"
| "fmul PInf PInf = PInf"
| "fmul PInf NInf = NInf"
| "fmul NInf PInf = NInf"
| "fmul NInf NInf = PInf"

text \<open>
  Float division as the pipeline's array arithmetic performs it: no exception is raised,
  a nonzero number over zero is an infinity, zero over zero is NaN.
\<close>

fun fdiv :: "fval \<Rightarrow> fval \<Rightarrow> fval" where
  "fdiv NaN _ = NaN"
| "fdiv _ NaN = NaN"
| "fdiv (Fin a) (Fin b) = (if b = 0 then signed_inf a else Fin (a / b))"
| "fdiv (Fin a) PInf = Fin 0"
| "fdiv (Fin a) NInf = Fin 0"
| "fdiv PInf (Fin b) = (if b < 0 then NInf else PInf)"
| "fdiv NInf (Fin b) = (if b < 0 then PInf else NInf)"
| "fdiv PInf _ = NaN"
| "fdiv NInf _ = NaN"

fun fadd :: "fval \<Rightarrow> fval \<Rightarrow> fval" where
  "fadd NaN _ = NaN"
| "fadd _ NaN = NaN"
| "fadd (Fin a) (Fin b) = Fin (a + b)"
| "fadd PInf NInf = NaN"
| "fadd NInf PInf = NaN"
| "fadd PInf _ = PInf"
| "fadd NInf _ = NInf"
| "fadd _ PInf = PInf"
| "fadd _ NInf = NInf"

definition fsub :: "fval \<Rightarrow> fval \<Rightarrow> fval" where
  "fsub x y = fadd x (fneg y)"

text \<open>The comparison \<open>x <= y\<close> of floats: false as soon as one side is NaN.\<close>

fun fle :: "fval \<Rightarrow> fval \<Rightarrow> bool" where
  "fle NaN _ = False"
| "fle _ NaN = False"
| "fle NInf _ = True"
| "fle _ PInf = True"
| "fle (Fin a) (Fin b) = (a \<le> b)"
| "fle PInf _ = False"
| "fle _ NInf = False"

section \<open>The pipeline terms built by the algorithm\<close>

text \<open>
  The platform's pipeline API is declarative: \<open>make_pipeline\<close> does not compute any number,
  it builds factor and filter terms that the platform's engine evaluates every day. The
  terms are the constructors the source calls.
\<close>

type_synonym sid = string

datatype column = USEquityPricing_close | stocktwits_bull_minus_bear
  | stocktwits_total_scanned_messages

datatype factor =
    SimpleMovingAverage column nat pfilter
  | Returns nat pfilter
  | Div factor factor
  | Mul factor factor
  | Winsorize factor rat rat pfilter
  | ZScore factor
and pfilter =
    QTradableStocksUS
  | PercentileBetween factor rat rat pfilter
  | Or pfilter pfilter
  | And pfilter pfilter

record pipeline =
  columns :: "(string \<times> factor) list"
  screen :: pfilter

subsection \<open>Configuration constants\<close>

definition MAX_GROSS_EXPOSURE :: rat where
  "MAX_GROSS_EXPOSURE = 1"

definition MAX_POSITION_CONCENTRATION :: rat where
  "MAX_POSITION_CONCENTRATION = 25 / 1000"

definition RETURNS_LOOKBACK_DAYS :: nat where
  "RETURNS_LOOKBACK_DAYS = 7"

subsection \<open>\<open>make_pipeline\<close>\<close>

text \<open>
  The local bindings of \<open>make_pipeline\<close>, in the order of the source. None of them depends
  on the function's argument, so each is a constant here.
\<close>

definition universe :: pfilter where
  "universe = QTradableStocksUS"

definition mean_close_50 :: factor where
  "mean_close_50 = SimpleMovingAverage USEquityPricing_close 50 universe"

definition mean_close_200 :: factor where
  "mean_close_200 = SimpleMovingAverage USEquityPricing_close 200 universe"

definition mean_average_multiplier :: factor where
  "mean_average_multiplier = Div mean_close_200 mean_close_50"

definition bull_m_bear :: factor where
  "bull_m_bear = SimpleMovingAverage stocktwits_bull_minus_bear RETURNS_LOOKBACK_DAYS universe"

definition total_messages :: factor where
  "total_messages =
     SimpleMovingAverage stocktwits_total_scanned_messages RETURNS_LOOKBACK_DAYS universe"

definition sentiment_score :: factor where
  "sentiment_score = Div total_messages bull_m_bear"

definition sentiment_score_winsorized :: factor where
  "sentiment_score_winsorized = Winsorize sentiment_score (1 / 100) (95 / 100) universe"

definition recent_returns :: factor where
  "recent_returns = Returns RETURNS_LOOKBACK_DAYS universe"

definition recent_returns_zscore :: factor where
  "recent_returns_zscore = ZScore recent_returns"

definition low_returns :: pfilter where
  "low_returns = PercentileBetween recent_returns_zscore 0 25 universe"

definition high_returns :: pfilter where
  "high_returns = PercentileBetween recent_returns_zscore 75 100 universe"

definition securities_to_trade :: pfilter where
  "securities_to_trade = And (Or low_returns high_returns) universe"

definition total_score :: factor where
  "total_score =
     Mul (Mul sentiment_score_winsorized recent_returns_zscore) mean_average_multiplier"

text \<open>The algorithm's context object: before the first pre-open hook it has neither attribute.\<close>

type_synonym series = "(sid \<times> fval) list"

type_synonym dataframe = "(string \<times> series) list"

record algo_context =
  context_output :: "dataframe option"
  context_total_score :: "series option"

definition make_pipeline :: "algo_context \<Rightarrow> pipeline" where
  "make_pipeline context =
     \<lparr>columns = [(''total_score'', total_score)], screen = securities_to_trade\<rparr>"

section \<open>The platform\<close>

text \<open>
  The pipeline engine, the data feeds and the cross-sectional transforms belong to the
  trading platform, not to this repository. They are parameters of the model: a platform
  gives, for one trading day, the assets it knows, the members of the tradable universe,
  the values of the windowed factors, and its implementations of \<open>winsorize\<close>,
  \<open>zscore\<close> and \<open>percentile_between\<close>. Every argument the source passes
  (column, window length, percentiles, mask) is passed on to the platform.
\<close>

record platform =
  assets :: "sid list"
  tradable :: "sid \<Rightarrow> bool"
  sma :: "column \<Rightarrow> nat \<Rightarrow> (sid \<Rightarrow> bool) \<Rightarrow> sid \<Rightarrow> fval"
  returns :: "nat \<Rightarrow> (sid \<Rightarrow> bool) \<Rightarrow> sid \<Rightarrow> fval"
  winsorize :: "rat \<Rightarrow> rat \<Rightarrow> (sid \<Rightarrow> bool) \<Rightarrow> (sid \<Rightarrow> fval) \<Rightarrow> sid \<Rightarrow> fval"
  zscore :: "(sid \<Rightarrow> fval) \<Rightarrow> sid \<Rightarrow> fval"
  percentile_between :: "rat \<Rightarrow> rat \<Rightarrow> (sid \<Rightarrow> bool) \<Rightarrow> (sid \<Rightarrow> fval) \<Rightarrow> sid \<Rightarrow> bool"

text \<open>
  The value of a factor term and of a filter term for one security. Arithmetic on factors
  is elementwise float arithmetic, \<open>|\<close> and \<open>&\<close> on filters are elementwise.
\<close>

fun compute_factor :: "platform \<Rightarrow> factor \<Rightarrow> sid \<Rightarrow> fval"
  and compute_filter :: "platform \<Rightarrow> pfilter \<Rightarrow> sid \<Rightarrow> bool" where
  "compute_factor pf (SimpleMovingAverage c n m) s = sma pf c n (compute_filter pf m) s"
| "compute_factor pf (Returns n m) s = returns pf n (compute_filter pf m) s"
| "compute_factor pf (Div f g) s = fdiv (compute_factor pf f s) (compute_factor pf g s)"
| "compute_factor pf (Mul f g) s = fmul (compute_factor pf f s) (compute_factor pf g s)"
| "compute_factor pf (Winsorize f lo hi m) s =
     winsorize pf lo hi (compute_filter pf m) (compute_factor pf f) s"
| "compute_factor pf (ZScore f) s = zscore pf (compute_factor pf f) s"
| "compute_filter pf QTradableStocksUS s = tradable pf s"
| "compute_filter pf (PercentileBetween f lo hi m) s =
     percentile_between pf lo hi (compute_filter pf m) (compute_factor pf f) s"
| "compute_filter pf (Or a b) s = (compute_filter pf a s \<or> compute_filter pf b s)"
| "compute_filter pf (And a b) s = (compute_filter pf a s \<and> compute_filter pf b s)"

text \<open>
  Running a pipeline gives a data frame: one row per asset that passes the screen, one
  column per entry of \<open>columns\<close>.
\<close>

definition run_pipeline :: "platform \<Rightarrow> pipeline \<Rightarrow> dataframe" where
  "run_pipeline pf p =
     map (\<lambda>(name, f).
            (name, map (\<lambda>s. (s, compute_factor pf f s))
                       (filter (compute_filter pf (screen p)) (assets pf))))
         (columns p)"

section \<open>The algorithm's entry points\<close>

text \<open>
  What the algorithm registers with the host: the functions it schedules and the pipelines
  it attaches, by name.
\<close>

datatype callback = rebalance_callback

datatype date_rule = week_start nat

datatype time_rule = market_open nat nat

datatype scheduled = ScheduledFunction callback date_rule time_rule

record algo =
  scheduled_functions :: "scheduled list"
  attached_pipelines :: "(string \<times> pipeline) list"

datatype error = AttributeError | KeyError | NoSuchPipeline

definition schedule_function :: "callback \<Rightarrow> date_rule \<Rightarrow> time_rule \<Rightarrow> algo \<Rightarrow> algo" where
  "schedule_function f d t a =
     a\<lparr>scheduled_functions := scheduled_functions a @ [ScheduledFunction f d t]\<rparr>"

definition attach_pipeline :: "pipeline \<Rightarrow> string \<Rightarrow> algo \<Rightarrow> algo" where
  "attach_pipeline p name a = a\<lparr>attached_pipelines := (name, p) # attached_pipelines a\<rparr>"

definition pipeline_output :: "platform \<Rightarrow> algo \<Rightarrow> string \<Rightarrow> error + dataframe" where
  "pipeline_output pf a name =
     (case map_of (attached_pipelines a) name of
        None \<Rightarrow> Inl NoSuchPipeline
      | Some p \<Rightarrow> Inr (run_pipeline pf p))"

definition initialize :: "algo \<Rightarrow> algo_context \<Rightarrow> algo" where
  "initialize a context =
     attach_pipeline (make_pipeline context) ''mean_reversion_example''
       (schedule_function rebalance_callback (week_start 0) (market_open 1 30) a)"

subsection \<open>The pandas operations of the pre-open hook\<close>

text \<open>\<open>DataFrame.fillna(v)\<close>: every missing (NaN) cell of every column becomes \<open>v\<close>.\<close>

definition fillna :: "fval \<Rightarrow> dataframe \<Rightarrow> dataframe" where
  "fillna v df =
     map (\<lambda>(name, col). (name, map (\<lambda>(s, x). (s, if is_nan x then v else x)) col)) df"

text \<open>\<open>Series.replace(olds, v)\<close>: every cell equal to one of \<open>olds\<close> becomes \<open>v\<close>.\<close>

definition replace :: "fval list \<Rightarrow> fval \<Rightarrow> series \<Rightarrow> series" where
  "replace olds v col = map (\<lambda>(s, x). (s, if x \<in> set olds then v else x)) col"

text \<open>\<open>df[name]\<close>: the column of that name, KeyError when there is none.\<close>

definition getitem :: "dataframe \<Rightarrow> string \<Rightarrow> error + series" where
  "getitem df name = (case map_of df name of None \<Rightarrow> Inl KeyError | Some col \<Rightarrow> Inr col)"

definition before_trading_start :: "platform \<Rightarrow> algo \<Rightarrow> algo_context \<Rightarrow> error + algo_context" where
  "before_trading_start pf a context =
     (case pipeline_output pf a ''mean_reversion_example'' of
        Inl e \<Rightarrow> Inl e
      | Inr df \<Rightarrow>
          (let out = fillna (Fin 1) df in
           case getitem out ''total_score'' of
             Inl e \<Rightarrow> Inl e
           | Inr col \<Rightarrow>
               Inr (context\<lparr>context_output := Some out,
                            context_total_score := Some (replace [PInf, NInf] (Fin 1) col)\<rparr>)))"

subsection \<open>\<open>rebalance\<close>\<close>

datatype objective = MaximizeAlpha series

datatype constraint =
    MaxGrossExposure rat
  | PositionConcentration_with_equal_bounds rat rat
  | DollarNeutral

record order_request =
  request_objective :: objective
  request_constraints :: "constraint list"

definition order_optimal_portfolio :: "objective \<Rightarrow> constraint list \<Rightarrow> order_request" where
  "order_optimal_portfolio obj cs = \<lparr>request_objective = obj, request_constraints = cs\<rparr>"

text \<open>Unary minus of a series, elementwise.\<close>

definition series_neg :: "series \<Rightarrow> series" where
  "series_neg col = map (\<lambda>(s, x). (s, fneg x)) col"

text \<open>
  \<open>rebalance\<close> reads \<open>context.total_score\<close>, which exists only once the pre-open hook
  has run; it returns the request it hands to the platform's optimizer.
\<close>

definition rebalance :: "algo_context \<Rightarrow> error + order_request" where
  "rebalance context =
     (case context_total_score context of
        None \<Rightarrow> Inl AttributeError
      | Some ts \<Rightarrow>
          (let objective = MaximizeAlpha (series_neg ts);
               max_gross_exposure = MaxGrossExposure MAX_GROSS_EXPOSURE;
               max_position_concentration =
                 PositionConcentration_with_equal_bounds
                   (- MAX_POSITION_CONCENTRATION) MAX_POSITION_CONCENTRATION;
               dollar_neutral = DollarNeutral;
               constraints = [max_gross_exposure, max_position_concentration, dollar_neutral]
           in Inr (order_optimal_portfolio objective constraints)))"

section \<open>What the platform does with a request\<close>

text \<open>
  Modelled from the spec: the optimizer is an external service, absent from the repository.
  The spec (4.2) gives the meaning of the objective and of the three constraints on a
  weight mapping: the objective is the sum, over held positions, of weight times alpha;
  gross exposure is the sum of absolute weights; every weight lies within the bounds; the
  sum of positive weights equals the sum of absolute values of negative weights.
\<close>

type_synonym weights = "(sid \<times> rat) list"

fun fsum :: "fval list \<Rightarrow> fval" where
  "fsum [] = Fin 0"
| "fsum (x # xs) = fadd x (fsum xs)"

definition alpha_of :: "series \<Rightarrow> sid \<Rightarrow> fval" where
  "alpha_of alphas s = (case map_of alphas s of None \<Rightarrow> Fin 0 | Some a \<Rightarrow> a)"

fun objective_value :: "objective \<Rightarrow> weights \<Rightarrow> fval" where
  "objective_value (MaximizeAlpha alphas) ws =
     fsum (map (\<lambda>(s, w). fmul (Fin w) (alpha_of alphas s)) ws)"

definition gross_exposure :: "weights \<Rightarrow> rat" where
  "gross_exposure ws = sum_list (map (\<lambda>(s, w). \<bar>w\<bar>) ws)"

definition long_exposure :: "weights \<Rightarrow> rat" where
  "long_exposure ws = sum_list (map (\<lambda>(s, w). if 0 < w then w else 0) ws)"

definition short_exposure :: "weights \<Rightarrow> rat" where
  "short_exposure ws = sum_list (map (\<lambda>(s, w). if w < 0 then \<bar>w\<bar> else 0) ws)"

fun satisfies :: "weights \<Rightarrow> constraint \<Rightarrow> bool" where
  "satisfies ws (MaxGrossExposure m) = (gross_exposure ws \<le> m)"
| "satisfies ws (PositionConcentration_with_equal_bounds lo hi) =
     list_all (\<lambda>(s, w). lo \<le> w \<and> w \<le> hi) ws"
| "satisfies ws DollarNeutral = (long_exposure ws = short_exposure ws)"

section \<open>Reference transforms and example platforms\<close>

text \<open>
  Modelled from the spec: the platform's \<open>percentile_between\<close> and \<open>winsorize\<close> are
  absent from the repository. The spec (4.1, glossary) has the first keep the securities
  whose value lies in a percentile band of the masked cross-section, and the second clip
  the values below the lower and above the upper percentile to those percentile values.
  Percentiles are taken over the values that are not missing, with linear interpolation
  between neighbouring ranks; both bounds of a band are inclusive. They serve to build
  concrete platforms; the theorems about the algorithm hold for every platform.
\<close>

fun finsert :: "fval \<Rightarrow> fval list \<Rightarrow> fval list" where
  "finsert x [] = [x]"
| "finsert x (y # ys) = (if fle x y then x # y # ys else y # finsert x ys)"

definition fsort :: "fval list \<Rightarrow> fval list" where
  "fsort xs = foldr finsert xs []"

definition nanpercentile :: "fval list \<Rightarrow> rat \<Rightarrow> fval" where
  "nanpercentile xs q =
     (let vs = fsort (filter (\<lambda>x. \<not> is_nan x) xs); n = length vs
      in if n = 0 then NaN
         else (let r = q / 100 * of_nat (n - 1);
                   lo = min (nat \<lfloor>r\<rfloor>) (n - 1);
                   hi = min (nat \<lceil>r\<rceil>) (n - 1);
                   t = r - of_int \<lfloor>r\<rfloor>
               in fadd (vs ! lo) (fmul (fsub (vs ! hi) (vs ! lo)) (Fin t))))"

definition masked_values :: "sid list \<Rightarrow> (sid \<Rightarrow> bool) \<Rightarrow> (sid \<Rightarrow> fval) \<Rightarrow> fval list" where
  "masked_values as m f = map f (filter m as)"

definition percentile_between_ref ::
  "sid list \<Rightarrow> rat \<Rightarrow> rat \<Rightarrow> (sid \<Rightarrow> bool) \<Rightarrow> (sid \<Rightarrow> fval) \<Rightarrow> sid \<Rightarrow> bool" where
  "percentile_between_ref as lo hi m f s =
     (let data = masked_values as m f
      in m s \<and> fle (nanpercentile data lo) (f s) \<and> fle (f s) (nanpercentile data hi))"

definition winsorize_ref ::
  "sid list \<Rightarrow> rat \<Rightarrow> rat \<Rightarrow> (sid \<Rightarrow> bool) \<Rightarrow> (sid \<Rightarrow> fval) \<Rightarrow> sid \<Rightarrow> fval" where
  "winsorize_ref as lo hi m f s =
     (let data = masked_values as m f;
          lower = nanpercentile data (lo * 100);
          upper = nanpercentile data (hi * 100);
          v = f s
      in if \<not> m s \<or> is_nan v then NaN
         else if \<not> fle lower v then lower
         else if \<not> fle v upper then upper
         else v)"

text \<open>
  The scenario of the spec (section 8): the universe is A, B, C, D and the platform reports
  the return z-scores -2.0, -0.5, 0.5 and 2.0 for them. The scenario fixes no other
  number: here every security has a 200-day average of 120, a 50-day average of 100, a
  message average of 6 and a bull-minus-bear average of 2.
\<close>

definition scenario_zscores :: "sid \<Rightarrow> fval" where
  "scenario_zscores s =
     (if s = ''A'' then Fin (- 2) else if s = ''B'' then Fin (- (1 / 2))
      else if s = ''C'' then Fin (1 / 2) else if s = ''D'' then Fin 2 else NaN)"

definition scenario_sma :: "column \<Rightarrow> nat \<Rightarrow> (sid \<Rightarrow> bool) \<Rightarrow> sid \<Rightarrow> fval" where
  "scenario_sma c n m s =
     (if \<not> m s then NaN
      else case c of
        USEquityPricing_close \<Rightarrow> (if n = 200 then Fin 120 else Fin 100)
      | stocktwits_bull_minus_bear \<Rightarrow> Fin 2
      | stocktwits_total_scanned_messages \<Rightarrow> Fin 6)"

definition scenario_platform :: platform where
  "scenario_platform =
     \<lparr>assets = [''A'', ''B'', ''C'', ''D''],
      tradable = (\<lambda>s. s \<in> set [''A'', ''B'', ''C'', ''D'']),
      sma = scenario_sma,
      returns = (\<lambda>n m s. if m s then scenario_zscores s else NaN),
      winsorize = winsorize_ref [''A'', ''B'', ''C'', ''D''],
      zscore = (\<lambda>f. scenario_zscores),
      percentile_between = percentile_between_ref [''A'', ''B'', ''C'', ''D'']\<rparr>"

text \<open>
  A day with the two edge cases of the spec (4.1): the same platform, except that the
  200-day average of A is missing and the bull-minus-bear average of D is exactly zero.
\<close>

definition edge_sma :: "column \<Rightarrow> nat \<Rightarrow> (sid \<Rightarrow> bool) \<Rightarrow> sid \<Rightarrow> fval" where
  "edge_sma c n m s =
     (if c = USEquityPricing_close \<and> n = 200 \<and> s = ''A'' then NaN
      else if c = stocktwits_bull_minus_bear \<and> s = ''D'' then Fin 0
      else scenario_sma c n m s)"

definition edge_platform :: platform where
  "edge_platform = scenario_platform\<lparr>sma := edge_sma\<rparr>"

text \<open>The host's objects before \<open>initialize\<close> and before the first pre-open hook.\<close>

definition new_algo :: algo where
  "new_algo = \<lparr>scheduled_functions = [], attached_pipelines = []\<rparr>"

definition new_context :: algo_context where
  "new_context = \<lparr>context_output = None, context_total_score = None\<rparr>"

text \<open>
  The substitution rule in the spec's words (4.1, step 6), for comparison with the code:
  a missing raw factor value is replaced with 1.0 before the sentiment, eligibility and
  composite-score steps, that is, in what the platform feeds into them.
\<close>

definition spec_substitute :: "fval \<Rightarrow> fval" where
  "spec_substitute v = (if is_nan v then Fin 1 else v)"

definition spec_substitute_missing :: "platform \<Rightarrow> platform" where
  "spec_substitute_missing pf =
     pf\<lparr>sma := (\<lambda>c n m s. spec_substitute (sma pf c n m s)),
        returns := (\<lambda>n m s. spec_substitute (returns pf n m s)),
        zscore := (\<lambda>f s. spec_substitute (zscore pf f s))\<rparr>"

section \<open>Basic facts\<close>

lemma fmul_NaN_right: "fmul x NaN = NaN"
  by (cases x) simp_all

lemma fdiv_NaN_right: "fdiv x NaN = NaN"
  by (cases x) simp_all



lemma map_of_tabulate:
  "map_of (map (\<lambda>s. (s, g s)) xs) s = (if s \<in> set xs then Some (g s) else None)"
  by (induction xs) auto

lemma run_make_pipeline:
  "run_pipeline pf (make_pipeline c) =
     [(''total_score'', map (\<lambda>s. (s, compute_factor pf total_score s))
                          (filter (compute_filter pf securities_to_trade) (assets pf)))]"
  by (simp add: run_pipeline_def make_pipeline_def)

lemma pipeline_output_initialize:
  "pipeline_output pf (initialize a c) ''mean_reversion_example'' =
     Inr (run_pipeline pf (make_pipeline c))"
  by (simp add: pipeline_output_def initialize_def attach_pipeline_def schedule_function_def)

text \<open>One cell through \<open>fillna(1)\<close> and then \<open>replace([inf, -inf], 1)\<close>.\<close>

lemma staged_cell:
  "(let x = (if is_nan v then Fin 1 else v) in if x \<in> set [PInf, NInf] then Fin 1 else x)
     = (if is_finite v then v else Fin 1)"
  by (cases v) simp_all

text \<open>
  Once \<open>initialize\<close> has attached the pipeline, the pre-open hook never fails, and both
  attributes of the context are overwritten.
\<close>

lemma before_trading_start_initialize:
  "before_trading_start pf (initialize a c) x =
     Inr (x\<lparr>context_output := Some (fillna (Fin 1) (run_pipeline pf (make_pipeline c))),
            context_total_score :=
              Some (map (\<lambda>s. (s, let v = compute_factor pf total_score s
                                 in if is_finite v then v else Fin 1))
                     (filter (compute_filter pf securities_to_trade) (assets pf)))\<rparr>)"
  using staged_cell
  by (simp add: before_trading_start_def pipeline_output_initialize run_make_pipeline
      fillna_def getitem_def replace_def Let_def comp_def)

text \<open>The terms of \<open>make_pipeline\<close>, evaluated.\<close>

lemma compute_universe: "compute_filter pf universe = tradable pf"
  by (rule ext) (simp add: universe_def)

lemma screen_make_pipeline: "screen (make_pipeline c) = securities_to_trade"
  by (simp add: make_pipeline_def)


lemma compute_recent_returns_zscore:
  "compute_factor pf recent_returns_zscore = zscore pf (returns pf 7 (tradable pf))"
proof -
  have "compute_factor pf recent_returns = returns pf 7 (tradable pf)"
    by (rule ext) (simp add: recent_returns_def compute_universe RETURNS_LOOKBACK_DAYS_def)
  then show ?thesis
    by (intro ext) (simp add: recent_returns_zscore_def)
qed

lemma compute_securities_to_trade:
  "compute_filter pf securities_to_trade s =
     ((percentile_between pf 0 25 (tradable pf) (zscore pf (returns pf 7 (tradable pf))) s
       \<or> percentile_between pf 75 100 (tradable pf) (zscore pf (returns pf 7 (tradable pf))) s)
      \<and> tradable pf s)"
  by (simp add: securities_to_trade_def low_returns_def high_returns_def
      compute_recent_returns_zscore compute_universe)

lemma compute_total_score:
  "compute_factor pf total_score s =
     fmul (fmul (compute_factor pf sentiment_score_winsorized s)
                (compute_factor pf recent_returns_zscore s))
          (fdiv (compute_factor pf mean_close_200 s) (compute_factor pf mean_close_50 s))"
  by (simp add: total_score_def mean_average_multiplier_def)

lemma map_of_series_neg: "map_of (series_neg ts) s = map_option fneg (map_of ts s)"
  by (induction ts) (auto simp: series_neg_def)

text \<open>The staged score of a security that passes the screen.\<close>

lemma staged_score:
  assumes "s \<in> set (assets pf)" and "compute_filter pf securities_to_trade s"
  shows "\<exists>y ts. before_trading_start pf (initialize a c) x = Inr y
           \<and> context_total_score y = Some ts
           \<and> map_of ts s = Some (let v = compute_factor pf total_score s
                                  in if is_finite v then v else Fin 1)"
  using assms by (simp add: before_trading_start_initialize map_of_tabulate)

text \<open>What \<open>rebalance\<close> submits once a score mapping is staged.\<close>

lemma rebalance_staged:
  "context_total_score x = Some ts \<Longrightarrow>
     rebalance x =
       Inr \<lparr>request_objective = MaximizeAlpha (series_neg ts),
            request_constraints =
              [MaxGrossExposure 1,
               PositionConcentration_with_equal_bounds (- (25 / 1000)) (25 / 1000),
               DollarNeutral]\<rparr>"
  by (simp add: rebalance_def order_optimal_portfolio_def MAX_GROSS_EXPOSURE_def
      MAX_POSITION_CONCENTRATION_def)

text \<open>After \<open>fillna\<close> no cell is missing; after \<open>replace\<close> none is infinite either.\<close>

lemma fillna_no_nan:
  assumes "(name, col) \<in> set (fillna (Fin 1) df)"
  shows "list_all (\<lambda>(s, v). \<not> is_nan v) col"
  using assms by (auto simp: fillna_def list_all_iff split: if_splits)

lemma replace_inf_finite:
  assumes "list_all (\<lambda>(s, v). \<not> is_nan v) col"
  shows "list_all (\<lambda>(s, v). is_finite v) (replace [PInf, NInf] (Fin 1) col)"
  using assms
proof (induction col)
  case Nil
  then show ?case by (simp add: replace_def)
next
  case (Cons p col)
  obtain s v where p: "p = (s, v)" by (cases p)
  from Cons show ?case
    by (cases v) (simp_all add: replace_def p)
qed

lemma series_neg_finite:
  assumes "list_all (\<lambda>(s, v). is_finite v) col"
  shows "list_all (\<lambda>(s, v). is_finite v) (series_neg col)"
  using assms
proof (induction col)
  case Nil
  then show ?case by (simp add: series_neg_def)
next
  case (Cons p col)
  obtain s v where p: "p = (s, v)" by (cases p)
  from Cons show ?case
    by (cases v) (simp_all add: series_neg_def p)
qed

section \<open>The signal composer\<close>

text \<open>
  C1. For every security, the composite score is the winsorized sentiment ratio times the
  return z-score times the trend ratio (in this order of multiplication), and the
  \<open>total_score\<close> column of the pipeline output holds exactly this product for every
  asset that passes the screen.
\<close>

theorem composite_score_is_product:
  "compute_factor pf total_score s =
     fmul (fmul (compute_factor pf sentiment_score_winsorized s)
                (compute_factor pf recent_returns_zscore s))
          (compute_factor pf mean_average_multiplier s)
   \<and> getitem (run_pipeline pf (make_pipeline c)) ''total_score'' =
       Inr (map (\<lambda>s. (s, fmul (fmul (compute_factor pf sentiment_score_winsorized s)
                                   (compute_factor pf recent_returns_zscore s))
                             (compute_factor pf mean_average_multiplier s)))
             (filter (compute_filter pf (screen (make_pipeline c))) (assets pf)))"
  by (simp add: run_make_pipeline getitem_def total_score_def screen_make_pipeline)

text \<open>
  C8. For every security, the trend ratio is the 200-day simple moving average of the close
  price divided by the 50-day one, both computed over the tradable universe.
\<close>

theorem trend_ratio_200_over_50:
  "compute_factor pf mean_average_multiplier s =
     fdiv (sma pf USEquityPricing_close 200 (tradable pf) s)
          (sma pf USEquityPricing_close 50 (tradable pf) s)"
  by (simp add: mean_average_multiplier_def mean_close_200_def mean_close_50_def
      compute_universe)


text \<open>
  C2. The rows of the pipeline output are exactly the assets of the tradable universe whose
  7-day return z-score the platform places in the percentile band 0 to 25 or in the band 75
  to 100 of the universe; no other security appears. In the scenario with the z-scores
  -2.0, -0.5, 0.5 and 2.0 for A, B, C and D, exactly A and D appear.
\<close>

theorem eligibility_filter:
  "(\<exists>col. getitem (run_pipeline pf (make_pipeline c)) ''total_score'' = Inr col
      \<and> map fst col =
          filter (\<lambda>s. (percentile_between pf 0 25 (tradable pf)
                         (zscore pf (returns pf 7 (tradable pf))) s
                      \<or> percentile_between pf 75 100 (tradable pf)
                         (zscore pf (returns pf 7 (tradable pf))) s)
                     \<and> tradable pf s) (assets pf))
   \<and> getitem (run_pipeline scenario_platform (make_pipeline c)) ''total_score'' =
       Inr [(''A'', Fin (- (36 / 5))), (''D'', Fin (36 / 5))]"
proof
  have "compute_filter pf securities_to_trade =
    (\<lambda>s. (percentile_between pf 0 25 (tradable pf)
                         (zscore pf (returns pf 7 (tradable pf))) s
                      \<or> percentile_between pf 75 100 (tradable pf)
                         (zscore pf (returns pf 7 (tradable pf))) s)
                     \<and> tradable pf s)"
    by (rule ext) (rule compute_securities_to_trade)
  then show "\<exists>col. getitem (run_pipeline pf (make_pipeline c)) ''total_score'' = Inr col
      \<and> map fst col =
          filter (\<lambda>s. (percentile_between pf 0 25 (tradable pf)
                         (zscore pf (returns pf 7 (tradable pf))) s
                      \<or> percentile_between pf 75 100 (tradable pf)
                         (zscore pf (returns pf 7 (tradable pf))) s)
                     \<and> tradable pf s) (assets pf)"
    by (simp add: run_make_pipeline getitem_def comp_def)
next
  show "getitem (run_pipeline scenario_platform (make_pipeline c)) ''total_score'' =
       Inr [(''A'', Fin (- (36 / 5))), (''D'', Fin (36 / 5))]"
    by code_simp
qed

text \<open>
  C9. The composer keeps no state: the pipeline does not depend on the context it is
  built from, and two runs of the pre-open hook on the same platform data stage the same
  context, and submit the same request, whatever the contexts and the registrations were
  before. The hook always returns once \<open>initialize\<close> has run.
\<close>

theorem composer_has_no_hidden_state:
  "make_pipeline c1 = make_pipeline c2
   \<and> run_pipeline pf (make_pipeline c1) = run_pipeline pf (make_pipeline c2)
   \<and> before_trading_start pf (initialize a1 c1) x1 =
       before_trading_start pf (initialize a2 c2) x2
   \<and> (\<exists>y. before_trading_start pf (initialize a1 c1) x1 = Inr y)
   \<and> map_sum id rebalance (before_trading_start pf (initialize a1 c1) x1) =
       map_sum id rebalance (before_trading_start pf (initialize a2 c2) x2)"
proof -
  have same: "before_trading_start pf (initialize a1 c1) x1 =
       before_trading_start pf (initialize a2 c2) x2"
    by (cases x1, cases x2) (simp add: before_trading_start_initialize run_make_pipeline)
  have pure: "make_pipeline c1 = make_pipeline c2"
    by (simp add: make_pipeline_def)
  have total: "\<exists>y. before_trading_start pf (initialize a2 c2) x2 = Inr y"
    by (simp add: before_trading_start_initialize)
  from pure total show ?thesis
    unfolding same by simp
qed

section \<open>Missing and infinite values\<close>

text \<open>
  C3, as the code has it. The substitution of 1.0 is applied to the finished pipeline
  output, after the sentiment, eligibility and composite-score steps: for every security
  of the output whose 200-day or 50-day average, return z-score or winsorized sentiment
  ratio is missing, the composite score is missing and the staged score is 1.0.
\<close>

theorem missing_factor_staged_as_one:
  assumes "s \<in> set (assets pf)" and "compute_filter pf securities_to_trade s"
    and "is_nan (compute_factor pf mean_close_200 s) \<or> is_nan (compute_factor pf mean_close_50 s)
       \<or> is_nan (compute_factor pf recent_returns_zscore s)
       \<or> is_nan (compute_factor pf sentiment_score_winsorized s)"
  shows "compute_factor pf total_score s = NaN
    \<and> (\<exists>y ts. before_trading_start pf (initialize a c) x = Inr y
          \<and> context_total_score y = Some ts \<and> map_of ts s = Some (Fin 1))"
proof -
  have nan: "compute_factor pf total_score s = NaN"
    using assms(3) 
    apply (simp add: compute_total_score)
    apply (elim disjE)
    apply (cases "compute_factor pf mean_close_200 s"; simp add: fmul_NaN_right)
    apply (cases "compute_factor pf mean_close_50 s"; simp add: fmul_NaN_right fdiv_NaN_right)
    apply (cases "compute_factor pf recent_returns_zscore s"; simp add: fmul_NaN_right)
    apply (cases "compute_factor pf sentiment_score_winsorized s"; simp add: fmul_NaN_right)
    done
  with staged_score [OF assms(1,2), of a c x] show ?thesis
    by simp
qed

theorem missing_factor_staged_as_one_witness:
  "compute_factor edge_platform total_score ''A'' = NaN
    \<and> (\<exists>y ts. before_trading_start edge_platform (initialize new_algo new_context) new_context = Inr y
          \<and> context_total_score y = Some ts \<and> map_of ts ''A'' = Some (Fin 1))"
proof -
  have 1: "''A'' \<in> set (assets edge_platform)" by code_simp
  have 2: "compute_filter edge_platform securities_to_trade ''A''" by code_simp
  have 3: "is_nan (compute_factor edge_platform mean_close_200 ''A'')" by code_simp
  show ?thesis
    using missing_factor_staged_as_one [OF 1 2, of new_algo new_context new_context] 3
    by blast
qed

text \<open>
  C3 as stated fails. On the day of \<open>edge_platform\<close> the 200-day average of A is
  missing, its winsorized sentiment ratio is 3, its z-score is -2 and its 50-day average is
  100. With 1.0 in the place of the missing value the product would be -3/50 (and -6 if the
  whole trend ratio were left out); the staged score of A is 1.
\<close>

theorem missing_factor_counterexample:
  "before_trading_start edge_platform (initialize new_algo new_context) new_context =
     Inr \<lparr>context_output = Some [(''total_score'', [(''A'', Fin 1), (''D'', PInf)])],
          context_total_score = Some [(''A'', Fin 1), (''D'', Fin 1)]\<rparr>
   \<and> sma edge_platform USEquityPricing_close 200 (tradable edge_platform) ''A'' = NaN
   \<and> compute_factor edge_platform sentiment_score_winsorized ''A'' = Fin 3
   \<and> compute_factor edge_platform recent_returns_zscore ''A'' = Fin (- 2)
   \<and> compute_factor edge_platform mean_close_50 ''A'' = Fin 100
   \<and> compute_factor (spec_substitute_missing edge_platform) total_score ''A'' = Fin (- (3 / 50))
   \<and> fmul (Fin 3) (Fin (- 2)) = Fin (- 6)
   \<and> Fin 1 \<noteq> Fin (- (3 / 50)) \<and> Fin 1 \<noteq> Fin (- 6)"
  by code_simp




text \<open>
  C10. Whenever the pre-open hook returns, the staged mapping is the \<open>total_score\<close>
  column of the pipeline output after \<open>fillna(1)\<close>, which leaves no NaN, and then
  \<open>replace([inf, -inf], 1)\<close>, in this order; every staged value is finite, and so is
  every alpha of the objective that \<open>rebalance\<close> builds from it.
\<close>

theorem staged_scores_finite:
  assumes "before_trading_start pf a x = Inr y"
  shows "\<exists>df col. pipeline_output pf a ''mean_reversion_example'' = Inr df
      \<and> getitem (fillna (Fin 1) df) ''total_score'' = Inr col
      \<and> context_total_score y = Some (replace [PInf, NInf] (Fin 1) col)
      \<and> list_all (\<lambda>(s, v). \<not> is_nan v) col
      \<and> list_all (\<lambda>(s, v). is_finite v) (replace [PInf, NInf] (Fin 1) col)
      \<and> (\<exists>alphas. map_sum id request_objective (rebalance y) = Inr (MaximizeAlpha alphas)
            \<and> list_all (\<lambda>(s, v). is_finite v) alphas)"
proof -
  from assms obtain df where df: "pipeline_output pf a ''mean_reversion_example'' = Inr df"
    by (auto simp: before_trading_start_def split: sum.splits)
  with assms obtain col where col: "getitem (fillna (Fin 1) df) ''total_score'' = Inr col"
    and y: "context_total_score y = Some (replace [PInf, NInf] (Fin 1) col)"
    by (auto simp: before_trading_start_def Let_def split: sum.splits)
  from col have "(''total_score'', col) \<in> set (fillna (Fin 1) df)"
    by (auto simp: getitem_def split: option.splits dest: map_of_SomeD)
  then have nonan: "list_all (\<lambda>(s, v). \<not> is_nan v) col"
    by (rule fillna_no_nan)
  then have fin: "list_all (\<lambda>(s, v). is_finite v) (replace [PInf, NInf] (Fin 1) col)"
    by (rule replace_inf_finite)
  have "map_sum id request_objective (rebalance y) =
      Inr (MaximizeAlpha (series_neg (replace [PInf, NInf] (Fin 1) col)))"
    using y by (simp add: rebalance_def order_optimal_portfolio_def)
  with series_neg_finite [OF fin] df col y nonan fin show ?thesis
    by blast
qed

theorem staged_scores_finite_witness:
  "before_trading_start edge_platform (initialize new_algo new_context) new_context =
     Inr \<lparr>context_output = Some [(''total_score'', [(''A'', Fin 1), (''D'', PInf)])],
          context_total_score = Some [(''A'', Fin 1), (''D'', Fin 1)]\<rparr>
   \<and> (\<exists>df col. pipeline_output edge_platform (initialize new_algo new_context)
                   ''mean_reversion_example'' = Inr df
      \<and> getitem (fillna (Fin 1) df) ''total_score'' = Inr col
      \<and> Some [(''A'', Fin 1), (''D'', Fin 1)] = Some (replace [PInf, NInf] (Fin 1) col)
      \<and> list_all (\<lambda>(s, v). is_finite v) (replace [PInf, NInf] (Fin 1) col))"
proof -
  have h: "before_trading_start edge_platform (initialize new_algo new_context) new_context =
     Inr \<lparr>context_output = Some [(''total_score'', [(''A'', Fin 1), (''D'', PInf)])],
          context_total_score = Some [(''A'', Fin 1), (''D'', Fin 1)]\<rparr>"
    by code_simp
  show ?thesis
    using staged_scores_finite [OF h] h by auto
qed

section \<open>The optimization request\<close>

text \<open>
  C5. For every staged score mapping, the request of \<open>rebalance\<close> carries exactly three
  constraints: gross exposure at most 1.0, every weight within -0.025 and 0.025, and dollar
  neutrality; a weight mapping satisfies them all exactly when its absolute weights sum to
  at most 1, each weight lies within the bounds, and its positive weights sum to the
  absolute sum of its negative weights.
\<close>

theorem rebalance_three_constraints:
  assumes "context_total_score x = Some ts"
  shows "\<exists>req. rebalance x = Inr req
    \<and> request_constraints req =
         [MaxGrossExposure 1,
          PositionConcentration_with_equal_bounds (- (25 / 1000)) (25 / 1000),
          DollarNeutral]
    \<and> (list_all (satisfies ws) (request_constraints req) \<longleftrightarrow>
         gross_exposure ws \<le> 1
         \<and> (\<forall>(s, w) \<in> set ws. - (25 / 1000) \<le> w \<and> w \<le> 25 / 1000)
         \<and> long_exposure ws = short_exposure ws)"
  using rebalance_staged [OF assms] by (simp add: list_all_iff)

theorem rebalance_three_constraints_witness:
  "\<exists>req. rebalance \<lparr>context_output = None,
                     context_total_score = Some [(''A'', Fin (- (36 / 5))), (''D'', Fin (36 / 5))]\<rparr>
           = Inr req
    \<and> request_constraints req =
         [MaxGrossExposure 1,
          PositionConcentration_with_equal_bounds (- (25 / 1000)) (25 / 1000),
          DollarNeutral]
    \<and> list_all (satisfies [(''A'', 1 / 40), (''D'', - (1 / 40))]) (request_constraints req)
    \<and> \<not> list_all (satisfies [(''A'', 1 / 40), (''D'', - (1 / 50))]) (request_constraints req)
    \<and> \<not> list_all (satisfies [(''A'', 1 / 30), (''D'', - (1 / 30))]) (request_constraints req)"
proof -
  let ?x = "\<lparr>context_output = None,
             context_total_score = Some [(''A'', Fin (- (36 / 5))), (''D'', Fin (36 / 5))]\<rparr>"
  have h: "context_total_score ?x = Some [(''A'', Fin (- (36 / 5))), (''D'', Fin (36 / 5))]"
    by simp
  obtain req where r: "rebalance ?x = Inr req"
    "request_constraints req =
         [MaxGrossExposure 1,
          PositionConcentration_with_equal_bounds (- (25 / 1000)) (25 / 1000),
          DollarNeutral]"
    using rebalance_three_constraints [OF h] by blast
  have "list_all (satisfies [(''A'', 1 / 40), (''D'', - (1 / 40))]) (request_constraints req)"
    "\<not> list_all (satisfies [(''A'', 1 / 40), (''D'', - (1 / 50))]) (request_constraints req)"
    "\<not> list_all (satisfies [(''A'', 1 / 30), (''D'', - (1 / 30))]) (request_constraints req)"
    unfolding r(2)
    by (simp_all add: gross_exposure_def long_exposure_def short_exposure_def)
  with r show ?thesis by blast
qed

text \<open>
  C6. For every staged score mapping, the objective of the request maximizes alpha, where
  the alpha of every security is the negation of its staged score: the objective's value
  on a weight mapping is the sum over its positions of weight times minus the score.
\<close>

theorem objective_negates_scores:
  assumes "context_total_score x = Some ts"
  shows "\<exists>req. rebalance x = Inr req
    \<and> request_objective req = MaximizeAlpha (map (\<lambda>(s, v). (s, fneg v)) ts)
    \<and> objective_value (request_objective req) ws =
        fsum (map (\<lambda>(s, w). fmul (Fin w)
                     (case map_of ts s of None \<Rightarrow> Fin 0 | Some v \<Rightarrow> fneg v)) ws)"
proof -
  have "alpha_of (series_neg ts) = (\<lambda>s. case map_of ts s of None \<Rightarrow> Fin 0 | Some v \<Rightarrow> fneg v)"
    by (rule ext) (simp add: alpha_of_def map_of_series_neg split: option.split)
  then show ?thesis
    using rebalance_staged [OF assms] by (simp add: series_neg_def)
qed

theorem objective_negates_scores_witness:
  "\<exists>req. rebalance \<lparr>context_output = None,
                     context_total_score = Some [(''A'', Fin (- (36 / 5))), (''D'', Fin (36 / 5))]\<rparr>
           = Inr req
    \<and> request_objective req = MaximizeAlpha [(''A'', Fin (36 / 5)), (''D'', Fin (- (36 / 5)))]
    \<and> objective_value (request_objective req) [(''A'', 1 / 40), (''D'', - (1 / 40))]
        = Fin (9 / 25)"
proof -
  let ?x = "\<lparr>context_output = None,
             context_total_score = Some [(''A'', Fin (- (36 / 5))), (''D'', Fin (36 / 5))]\<rparr>"
  have h: "context_total_score ?x = Some [(''A'', Fin (- (36 / 5))), (''D'', Fin (36 / 5))]"
    by simp
  show ?thesis
    using objective_negates_scores [OF h, of "[(''A'', 1 / 40), (''D'', - (1 / 40))]"]
    by auto
qed

end
